theory Spec2Isabelle
  imports Main "HOL-Library.Word" "HOL-Library.Signed_Division" "HOL-Library.Multiset"
begin

unbundle bit_operations_syntax

section \<open>FastIndex: a cache- and SIMD-aware static index (fast\_index.h)\<close>

text \<open>
  The class template \<open>FastIndex<KeyT, ValueT>\<close> asserts \<open>sizeof(KeyT) == 4\<close> and hands its
  keys to \<open>_mm_set1_epi32\<close> / \<open>_mm_cmpgt_epi32\<close>, which compare signed 32-bit lanes. The
  model therefore instantiates \<open>KeyT\<close> at \<open>int32_t\<close>: a key is a 32-bit word and every
  comparison of keys is the signed one (\<open><s\<close>). Row references are \<open>Uint64\<close>.

  \<open>size_t\<close> values are natural numbers (of 64 bits). A \<open>size_t\<close> expression with a
  subtraction is computed over the integers and reduced modulo \<open>2 ^ 64\<close> (\<open>wrap64\<close>), or
  converted to the 32-bit \<open>int\<close> where the source stores it in one (\<open>int_of_size_t\<close>);
  plain sums and products of offsets and positions are taken to stay below \<open>2 ^ 64\<close>, and
  sums of \<open>int\<close> offsets below \<open>2 ^ 31\<close>.

  Failures are values of the type \<open>error\<close>, and every function that can fail returns
  \<open>error + 'a\<close>.
\<close>

subsection \<open>Data model\<close>

type_synonym KeyT = "32 word"
type_synonym Uint64 = "64 word"

text \<open>
  Modelled from the spec: the macro \<open>ASSERT(condition, message)\<close>, which the file uses and
  does not define. The specification classes a failed assertion as fatal, never recovered
  from: the function fails with \<open>AssertFailed\<close> and the message of the source (the text
  before its first \<open><<\<close>), and nothing after the assertion runs. The \<open>assert\<close> of
  \<open>find_range\<close> is modelled the same way. A read or write outside an array is
  \<open>OutOfBounds\<close>; a conversion or division the C++ standard leaves undefined is
  \<open>Undefined\<close>.
\<close>

datatype error = AssertFailed string | OutOfBounds | Undefined

record KeyValuePair =
  kv_key :: KeyT
  kv_value :: Uint64

record FastIndex =
  table_ptr :: "KeyValuePair list"
  container :: "KeyValuePair list"
  num_layers :: nat
  key_min :: KeyT
  key_max :: KeyT
  inner_nodes :: "KeyT list"
  simd_key_capacity :: nat
  simd_depth :: nat
  cacheline_key_capacity :: nat
  cacheline_depth :: nat
  cacheline_capacity :: nat
  page_key_capacity :: nat
  page_depth :: nat
  page_capacity :: nat

text \<open>
  Member names lose the trailing underscore of the source (\<open>num_layers_\<close> is
  \<open>num_layers\<close>), which an Isabelle name cannot end in. \<open>container\<close> is the array
  \<open>container_\<close> of the base class together with its length \<open>size_\<close>
  (\<open>container_size\<close>), its elements the pairs of \<open>key_\<close> and \<open>value_\<close>;
  \<open>inner_nodes\<close> is the array \<open>inner_nodes_\<close> together with its length \<open>inner_size_\<close>
  (the empty list for \<open>nullptr\<close>). \<open>table_ptr\<close> stands for the records of the external
  table the index was constructed over.
\<close>

definition container_size :: "FastIndex \<Rightarrow> nat" where
  "container_size idx = length (container idx)"

definition ebind :: "error + 'a \<Rightarrow> ('a \<Rightarrow> error + 'b) \<Rightarrow> error + 'b" where
  "ebind m f = (case m of Inl e \<Rightarrow> Inl e | Inr x \<Rightarrow> f x)"

definition wrap64 :: "int \<Rightarrow> nat" where
  "wrap64 i = nat (i mod 2 ^ 64)"

definition int_of_size_t :: "nat \<Rightarrow> int" where
  "int_of_size_t n = sint (word_of_nat n :: 32 word)"

definition container_at :: "FastIndex \<Rightarrow> nat \<Rightarrow> error + KeyValuePair" where
  "container_at idx i =
     (if i < container_size idx then Inr (container idx ! i) else Inl OutOfBounds)"

subsection \<open>The vector block lookup\<close>

text \<open>
  A 128-bit register is four 32-bit lanes, lane 0 first. \<open>_mm_loadu_si128\<close> reads the four
  keys from \<open>current_pos\<close> on; \<open>_mm_cmpgt_epi32\<close> sets a lane to all ones where the left
  lane is greater (signed) and to zero elsewhere; \<open>_mm_movemask_ps\<close> collects the top bit
  of lane \<open>i\<close> into bit \<open>i\<close> of the result.
\<close>

type_synonym m128i = "32 word \<times> 32 word \<times> 32 word \<times> 32 word"

definition mm_set1_epi32 :: "32 word \<Rightarrow> m128i" where
  "mm_set1_epi32 a = (a, a, a, a)"

definition mm_loadu_si128 :: "KeyT list \<Rightarrow> nat \<Rightarrow> error + m128i" where
  "mm_loadu_si128 mem pos =
     (if pos + 4 \<le> length mem
      then Inr (mem ! pos, mem ! (pos + 1), mem ! (pos + 2), mem ! (pos + 3))
      else Inl OutOfBounds)"

definition cmpgt_lane :: "32 word \<Rightarrow> 32 word \<Rightarrow> 32 word" where
  "cmpgt_lane a b = (if b <s a then - 1 else 0)"

definition mm_cmpgt_epi32 :: "m128i \<Rightarrow> m128i \<Rightarrow> m128i" where
  "mm_cmpgt_epi32 a b =
     (case a of (a0, a1, a2, a3) \<Rightarrow> case b of (b0, b1, b2, b3) \<Rightarrow>
        (cmpgt_lane a0 b0, cmpgt_lane a1 b1, cmpgt_lane a2 b2, cmpgt_lane a3 b3))"

definition mm_movemask_ps :: "m128i \<Rightarrow> 32 word" where
  "mm_movemask_ps v =
     (case v of (v0, v1, v2, v3) \<Rightarrow>
        of_bool (bit v0 31) + 2 * of_bool (bit v1 31)
          + 4 * of_bool (bit v2 31) + 8 * of_bool (bit v3 31))"

definition branch_table :: "nat list" where
  "branch_table = [0, 9, 1, 2, 9, 9, 9, 3]"

definition lookup_simd_block :: "FastIndex \<Rightarrow> KeyT \<Rightarrow> nat \<Rightarrow> error + nat" where
  "lookup_simd_block idx key current_pos =
     (let xmm_key_q = mm_set1_epi32 key in
      ebind (mm_loadu_si128 (inner_nodes idx) current_pos) (\<lambda>xmm_tree.
        let xmm_mask = mm_cmpgt_epi32 xmm_key_q xmm_tree;
            index = mm_movemask_ps xmm_mask;
            branch_id = branch_table ! unat (index AND 7)
        in Inr branch_id))"

definition lookup_cacheline_block :: "FastIndex \<Rightarrow> KeyT \<Rightarrow> nat \<Rightarrow> error + nat" where
  "lookup_cacheline_block idx key current_pos =
     ebind (lookup_simd_block idx key current_pos) (\<lambda>branch_id.
       let new_pos = current_pos + 3 * (branch_id + 1) in
       ebind (lookup_simd_block idx key new_pos) (\<lambda>new_branch_id.
         Inr (branch_id * 4 + new_branch_id)))"

subsection \<open>Exact search in the leaf range\<close>

text \<open>
  \<open>find_internal\<close> is the recursive binary search on the closed range of \<open>int\<close> offsets;
  the division of the source truncates (\<open>sdiv\<close>). It returns \<open>size_\<close> when the key is not
  in the range.
\<close>

function find_internal :: "FastIndex \<Rightarrow> KeyT \<Rightarrow> int \<Rightarrow> int \<Rightarrow> error + nat" where
  "find_internal idx key offset_begin offset_end =
     (if offset_begin > offset_end then Inr (container_size idx)
      else
        let offset_lookup = (offset_begin + offset_end) sdiv 2 in
        if offset_lookup < 0 \<or> int (container_size idx) \<le> offset_lookup then Inl OutOfBounds
        else
          let key_lookup = kv_key (container idx ! nat offset_lookup) in
          if key = key_lookup then Inr (nat offset_lookup)
          else if key_lookup <s key
            then find_internal idx key (offset_lookup + 1) offset_end
            else find_internal idx key offset_begin (offset_lookup - 1))"
  by pat_completeness auto
termination
proof (relation "measure (\<lambda>(idx, key, b, e). nat (e - b + 1))")
  show "wf (measure (\<lambda>(idx, key, b, e). nat (e - b + 1)))"
    by simp
next
  fix idx :: FastIndex and key :: KeyT and offset_begin offset_end x :: int
  assume "\<not> offset_end < offset_begin" and "x = (offset_begin + offset_end) sdiv 2"
  then have "offset_begin \<le> x \<and> x \<le> offset_end"
    by (cases "0 \<le> offset_begin + offset_end")
      (auto simp: signed_divide_int_def sgn_if abs_if)
  then show "((idx, key, x + 1, offset_end), idx, key, offset_begin, offset_end)
      \<in> measure (\<lambda>(idx, key, b, e). nat (e - b + 1))"
    and "((idx, key, offset_begin, x - 1), idx, key, offset_begin, offset_end)
      \<in> measure (\<lambda>(idx, key, b, e). nat (e - b + 1))"
    by auto
qed

subsection \<open>Point lookup\<close>

text \<open>The three loops of \<open>find\<close>: the degenerate copy loop, the scan to the left, the scan to the right.\<close>

function push_all :: "FastIndex \<Rightarrow> nat \<Rightarrow> Uint64 list \<Rightarrow> Uint64 list" where
  "push_all idx i values =
     (if i < container_size idx
      then push_all idx (i + 1) (values @ [kv_value (container idx ! i)])
      else values)"
  by pat_completeness auto
termination
  by (relation "measure (\<lambda>(idx, i, values). container_size idx - i)") auto

function move_left :: "FastIndex \<Rightarrow> KeyT \<Rightarrow> int \<Rightarrow> Uint64 list \<Rightarrow> error + Uint64 list" where
  "move_left idx key offset_find_lhs values =
     (if offset_find_lhs \<ge> 0 then
        if \<not> nat offset_find_lhs < container_size idx then Inl OutOfBounds
        else if kv_key (container idx ! nat offset_find_lhs) = key
          then move_left idx key (offset_find_lhs - 1)
                 (values @ [kv_value (container idx ! nat offset_find_lhs)])
          else Inr values
      else Inr values)"
  by pat_completeness auto
termination
  by (relation "measure (\<lambda>(idx, key, l, values). nat (l + 1))") auto

text \<open>
  The right scan compares the \<open>int\<close> offset with the \<open>size_t\<close> value \<open>size_ - 1\<close>, that is,
  as unsigned 64-bit values.
\<close>

function move_right :: "FastIndex \<Rightarrow> KeyT \<Rightarrow> int \<Rightarrow> Uint64 list \<Rightarrow> error + Uint64 list" where
  "move_right idx key offset_find_rhs values =
     (if wrap64 offset_find_rhs < wrap64 (int (container_size idx) - 1) then
        if \<not> (0 \<le> offset_find_rhs \<and> nat offset_find_rhs < container_size idx)
          then Inl OutOfBounds
        else if kv_key (container idx ! nat offset_find_rhs) = key
          then move_right idx key (offset_find_rhs + 1)
                 (values @ [kv_value (container idx ! nat offset_find_rhs)])
          else Inr values
      else Inr values)"
  by pat_completeness auto
termination
  by (relation "measure (\<lambda>(idx, key, r, values). container_size idx - nat r)") auto

subsection \<open>Tree lookup\<close>

text \<open>
  \<open>std::pow(16, n)\<close> is exact in double precision; its conversion to \<open>size_t\<close> is defined
  for \<open>n \<le> 15\<close> only. \<open>std::pow(2.0, n) - 1\<close> is exact up to \<open>n = 53\<close>, is rounded to
  \<open>2 ^ n\<close> above, and converts to \<open>size_t\<close> for \<open>n \<le> 63\<close> only.
\<close>

definition pow16 :: "nat \<Rightarrow> error + nat" where
  "pow16 n = (if n \<le> 15 then Inr (16 ^ n) else Inl Undefined)"

definition pow2_minus_1 :: "nat \<Rightarrow> error + nat" where
  "pow2_minus_1 n =
     (if n \<le> 53 then Inr (2 ^ n - 1) else if n \<le> 63 then Inr (2 ^ n) else Inl Undefined)"

function find_inner_layers_loop ::
  "FastIndex \<Rightarrow> KeyT \<Rightarrow> nat \<Rightarrow> nat \<Rightarrow> nat \<Rightarrow> nat \<Rightarrow> nat \<Rightarrow> error + nat \<times> nat" where
  "find_inner_layers_loop idx key cacheline_levels i branch_id current_pos num_cachelines =
     (if i < cacheline_levels then
        case lookup_cacheline_block idx key (current_pos + branch_id * 16) of
          Inl e \<Rightarrow> Inl e
        | Inr new_branch_id \<Rightarrow>
            (case pow16 (i + 1) of
               Inl e \<Rightarrow> Inl e
             | Inr num_cachelines' \<Rightarrow>
                 find_inner_layers_loop idx key cacheline_levels (i + 1)
                   (branch_id * 16 + new_branch_id) (current_pos + 16 * num_cachelines)
                   num_cachelines')
      else Inr (branch_id, num_cachelines))"
  by pat_completeness auto
termination
  by (relation "measure (\<lambda>(idx, key, levels, i, b, p, n). levels - i)") auto

definition find_inner_layers :: "FastIndex \<Rightarrow> KeyT \<Rightarrow> error + int \<times> int" where
  "find_inner_layers idx key =
     (if num_layers idx = 0
      then Inr (0, int_of_size_t (wrap64 (int (container_size idx) - 1)))
      else if cacheline_depth idx = 0 then Inl Undefined
      else
        let cacheline_levels = num_layers idx div cacheline_depth idx in
        ebind (pow16 (wrap64 (int cacheline_levels - 1))) (\<lambda>num_last_level_cachelines.
          let max_partitions = num_last_level_cachelines * 16 in
          ebind (lookup_cacheline_block idx key 0) (\<lambda>branch_id.
          ebind (find_inner_layers_loop idx key cacheline_levels 1 branch_id 16 16)
            (\<lambda>(branch_id, num_cachelines).
              let lhs_offset = 0;
                  rhs_offset = wrap64 (int (container_size idx) - 1
                                 - int (container_size idx mod max_partitions));
                  step = wrap64 (int rhs_offset - int lhs_offset + 1) div num_cachelines
              in
                if branch_id < wrap64 (int num_cachelines - 1)
                then Inr (int_of_size_t (branch_id * step),
                          int_of_size_t (wrap64 ((int branch_id + 1) * int step - 1)))
                else Inr (int_of_size_t (branch_id * step),
                          int_of_size_t (wrap64 (int (container_size idx) - 1)))))))"

definition find_FastIndex :: "FastIndex \<Rightarrow> KeyT \<Rightarrow> Uint64 list \<Rightarrow> error + Uint64 list" where
  "find_FastIndex idx key values =
     (if container_size idx = 0 then Inr values
      else if key_max idx <s key \<or> key <s key_min idx then Inr values
      else if key_max idx = key_min idx then
        (if key_max idx = key then Inr (push_all idx 0 values) else Inr values)
      else
        ebind (find_inner_layers idx key) (\<lambda>offset_range.
        ebind (if fst offset_range = snd offset_range
               then Inr (wrap64 (fst offset_range))
               else find_internal idx key (fst offset_range) (snd offset_range))
          (\<lambda>offset_find.
            if offset_find = container_size idx then Inr values
            else
              ebind (container_at idx offset_find) (\<lambda>found.
              ebind (move_left idx key (int_of_size_t (wrap64 (int offset_find - 1)))
                       (values @ [kv_value found])) (\<lambda>values_lhs.
                move_right idx key (int_of_size_t (offset_find + 1)) values_lhs)))))"

subsection \<open>Range lookup\<close>

definition find_range :: "FastIndex \<Rightarrow> KeyT \<Rightarrow> KeyT \<Rightarrow> Uint64 list \<Rightarrow> error + Uint64 list" where
  "find_range idx lhs_key rhs_key values =
     (if \<not> lhs_key <s rhs_key then Inl (AssertFailed ''lhs_key < rhs_key'')
      else if container_size idx = 0 then Inr values
      else if key_max idx <s lhs_key \<or> rhs_key <s key_min idx then Inr values
      else Inr values)"

subsection \<open>Tree construction\<close>

definition inner_nodes_store :: "FastIndex \<Rightarrow> nat \<Rightarrow> KeyT \<Rightarrow> error + FastIndex" where
  "inner_nodes_store idx pos k =
     (if pos < length (inner_nodes idx)
      then Inr (idx\<lparr>inner_nodes := (inner_nodes idx)[pos := k]\<rparr>)
      else Inl OutOfBounds)"

definition construct_simd_block :: "FastIndex \<Rightarrow> nat \<Rightarrow> nat \<Rightarrow> nat \<Rightarrow> error + FastIndex" where
  "construct_simd_block idx current_pos lhs_offset rhs_offset =
     (if simd_key_capacity idx \<noteq> 3
      then Inl (AssertFailed ''SIMD block key capacity not equal to 3'')
      else
        let step = wrap64 (int rhs_offset - int lhs_offset + 1) div 4 in
        ebind (container_at idx (wrap64 (int lhs_offset + 2 * int step - 1))) (\<lambda>r0.
        ebind (inner_nodes_store idx (current_pos + 0) (kv_key r0)) (\<lambda>idx0.
        ebind (container_at idx0 (wrap64 (int lhs_offset + 1 * int step - 1))) (\<lambda>r1.
        ebind (inner_nodes_store idx0 (current_pos + 1) (kv_key r1)) (\<lambda>idx1.
        ebind (container_at idx1 (wrap64 (int lhs_offset + 3 * int step - 1))) (\<lambda>r2.
        inner_nodes_store idx1 (current_pos + 2) (kv_key r2)))))))"

function construct_cacheline_block_loop ::
  "FastIndex \<Rightarrow> nat \<Rightarrow> nat \<Rightarrow> nat \<Rightarrow> nat \<Rightarrow> error + FastIndex" where
  "construct_cacheline_block_loop idx current_pos lhs_offset step i =
     (if i < 4 then
        case construct_simd_block idx (current_pos + 3 * (i + 1)) (lhs_offset + step * i)
               (wrap64 (int lhs_offset + int step * (int i + 1) - 1)) of
          Inl e \<Rightarrow> Inl e
        | Inr idx' \<Rightarrow> construct_cacheline_block_loop idx' current_pos lhs_offset step (i + 1)
      else Inr idx)"
  by pat_completeness auto
termination
  by (relation "measure (\<lambda>(idx, p, l, s, i). 4 - i)") auto

definition construct_cacheline_block ::
  "FastIndex \<Rightarrow> nat \<Rightarrow> nat \<Rightarrow> nat \<Rightarrow> error + FastIndex" where
  "construct_cacheline_block idx current_pos lhs_offset rhs_offset =
     ebind (construct_simd_block idx current_pos lhs_offset rhs_offset) (\<lambda>idx0.
       let step = wrap64 (int rhs_offset - int lhs_offset + 1) div 4 in
       construct_cacheline_block_loop idx0 current_pos lhs_offset step 0)"

text \<open>The inner loop over \<open>j\<close> and the outer loop over \<open>i\<close> of \<open>construct_inner_layers\<close>.\<close>

function construct_inner_layers_loop_j ::
  "FastIndex \<Rightarrow> nat \<Rightarrow> nat \<Rightarrow> nat \<Rightarrow> nat \<Rightarrow> error + FastIndex \<times> nat" where
  "construct_inner_layers_loop_j idx current_pos step num_cachelines j =
     (if j < num_cachelines then
        case construct_cacheline_block idx current_pos (step * j)
               (wrap64 (int step * (int j + 1) - 1)) of
          Inl e \<Rightarrow> Inl e
        | Inr idx' \<Rightarrow>
            construct_inner_layers_loop_j idx' (current_pos + 16) step num_cachelines (j + 1)
      else Inr (idx, current_pos))"
  by pat_completeness auto
termination
  by (relation "measure (\<lambda>(idx, p, s, n, j). n - j)") auto

function construct_inner_layers_loop_i ::
  "FastIndex \<Rightarrow> nat \<Rightarrow> nat \<Rightarrow> nat \<Rightarrow> nat \<Rightarrow> nat \<Rightarrow> error + FastIndex" where
  "construct_inner_layers_loop_i idx cacheline_levels lhs_offset rhs_offset i current_pos =
     (if i < cacheline_levels then
        case pow16 i of
          Inl e \<Rightarrow> Inl e
        | Inr num_cachelines \<Rightarrow>
            (case construct_inner_layers_loop_j idx current_pos
                    (wrap64 (int rhs_offset - int lhs_offset + 1) div num_cachelines)
                    num_cachelines 0 of
               Inl e \<Rightarrow> Inl e
             | Inr (idx', current_pos') \<Rightarrow>
                 construct_inner_layers_loop_i idx' cacheline_levels lhs_offset rhs_offset
                   (i + 1) current_pos')
      else Inr idx)"
  by pat_completeness auto
termination
  by (relation "measure (\<lambda>(idx, levels, l, r, i, p). levels - i)") auto

definition construct_inner_layers :: "FastIndex \<Rightarrow> error + FastIndex" where
  "construct_inner_layers idx =
     (if num_layers idx = 0 then Inl (AssertFailed ''number of layers cannot be 0'')
      else if cacheline_depth idx = 0 then Inl Undefined
      else
        let cacheline_levels = num_layers idx div cacheline_depth idx in
        ebind (pow16 (wrap64 (int cacheline_levels - 1))) (\<lambda>num_last_level_cachelines.
          let max_partitions = num_last_level_cachelines * 16;
              lhs_offset = 0;
              rhs_offset = wrap64 (int (container_size idx) - 1
                             - int (container_size idx mod max_partitions));
              current_pos = 0
          in
            ebind (construct_cacheline_block idx current_pos lhs_offset rhs_offset) (\<lambda>idx0.
              construct_inner_layers_loop_i idx0 cacheline_levels lhs_offset rhs_offset 1
                (current_pos + 16))))"

subsection \<open>Construction and rebuild\<close>

definition SIMD_SIZE :: nat where "SIMD_SIZE = 16"
definition CACHELINE_SIZE :: nat where "CACHELINE_SIZE = 64"
definition PAGE_SIZE :: nat where "PAGE_SIZE = 4096"
definition sizeof_KeyT :: nat where "sizeof_KeyT = 4"

text \<open>
  \<open>log2_trunc n\<close> is \<open>std::log(n) / std::log(2)\<close> stored in a \<open>size_t\<close>: the integer part of
  the binary logarithm. The constructor takes it at 5, 17 and 1025, where the quotient of
  the two doubles is far from an integer, so rounding cannot change the integer part.
  \<open>std::pow(2.0, d) - 1\<close> is exact for the depths that occur.
\<close>

fun log2_trunc :: "nat \<Rightarrow> nat" where
  "log2_trunc n = (if n < 2 then 0 else Suc (log2_trunc (n div 2)))"

text \<open>
  The constructor. The constructor of the base class is not in the file: the model starts
  with an empty \<open>container\<close>. The members the constructor leaves uninitialised
  (\<open>key_min\<close>, \<open>key_max\<close>, \<open>inner_nodes\<close>) are zero and empty here.
\<close>

definition FastIndex_new :: "KeyValuePair list \<Rightarrow> nat \<Rightarrow> error + FastIndex" where
  "FastIndex_new table num_layers0 =
     (if sizeof_KeyT \<noteq> 4 then Inl (AssertFailed ''only support 4-byte keys'')
      else
        let simd_key_capacity0 = SIMD_SIZE div sizeof_KeyT;
            simd_depth1 = log2_trunc (simd_key_capacity0 + 1);
            simd_key_capacity1 = 2 ^ simd_depth1 - 1;
            cacheline_key_capacity0 = CACHELINE_SIZE div sizeof_KeyT;
            cacheline_depth0 = log2_trunc (cacheline_key_capacity0 + 1);
            cacheline_depth1 =
              (if cacheline_depth0 mod simd_depth1 \<noteq> 0
               then (cacheline_depth0 div simd_depth1) * simd_depth1
               else cacheline_depth0);
            cacheline_key_capacity1 = 2 ^ cacheline_depth1 - 1
        in
          if cacheline_key_capacity1 mod simd_key_capacity1 \<noteq> 0
          then Inl (AssertFailed ''mismatch'')
          else
            let cacheline_capacity1 = cacheline_key_capacity1 div simd_key_capacity1;
                page_key_capacity0 = PAGE_SIZE div sizeof_KeyT;
                page_depth0 = log2_trunc (page_key_capacity0 + 1);
                page_depth1 =
                  (if page_depth0 mod cacheline_depth1 \<noteq> 0
                   then (page_depth0 div cacheline_depth1) * cacheline_depth1
                   else page_depth0);
                page_key_capacity1 =
                  (if page_depth0 mod cacheline_depth1 \<noteq> 0
                   then 2 ^ page_depth1 - 1
                   else page_key_capacity0)
            in
              if page_key_capacity1 mod cacheline_key_capacity1 \<noteq> 0
              then Inl (AssertFailed ''mismatch'')
              else
                let page_capacity1 = page_key_capacity1 div simd_key_capacity1 in
                if num_layers0 mod cacheline_depth1 \<noteq> 0
                then Inl (AssertFailed ''do not support number of layers'')
                else Inr \<lparr> table_ptr = table, container = [], num_layers = num_layers0,
                           key_min = 0, key_max = 0, inner_nodes = [],
                           simd_key_capacity = simd_key_capacity1, simd_depth = simd_depth1,
                           cacheline_key_capacity = cacheline_key_capacity1,
                           cacheline_depth = cacheline_depth1,
                           cacheline_capacity = cacheline_capacity1,
                           page_key_capacity = page_key_capacity1, page_depth = page_depth1,
                           page_capacity = page_capacity1 \<rparr>)"

text \<open>
  Modelled from the spec: \<open>base_reorganize\<close> of the base class \<open>BaseStaticIndex\<close>, which
  is not in the file. The specification describes it as the hook that guarantees the
  records are sorted ascending by key before the inner buffer is built: the model loads
  the records of the table into \<open>container\<close>, sorted by key (a stable sort).
\<close>

definition base_reorganize :: "FastIndex \<Rightarrow> FastIndex" where
  "base_reorganize idx = idx\<lparr>container := sort_key (\<lambda>r. sint (kv_key r)) (table_ptr idx)\<rparr>"

definition reorganize :: "FastIndex \<Rightarrow> error + FastIndex" where
  "reorganize idx =
     (let idx0 = base_reorganize idx in
      ebind (pow2_minus_1 (num_layers idx0)) (\<lambda>inner_node_size.
        if \<not> inner_node_size < container_size idx0
        then Inl (AssertFailed ''exceed maximum layers'')
        else
          ebind (container_at idx0 0) (\<lambda>first.
          ebind (container_at idx0 (wrap64 (int (container_size idx0) - 1))) (\<lambda>last.
            let idx1 = idx0\<lparr>key_min := kv_key first, key_max := kv_key last\<rparr> in
            if num_layers idx1 \<noteq> 0 then
              if cacheline_key_capacity idx1 = 0 then Inl Undefined
              else
                let num_cachelines = inner_node_size div cacheline_key_capacity idx1;
                    inner_size = num_cachelines * CACHELINE_SIZE div sizeof_KeyT
                in construct_inner_layers (idx1\<lparr>inner_nodes := replicate inner_size 0\<rparr>)
            else Inr (idx1\<lparr>inner_nodes := []\<rparr>)))))"

subsection \<open>Reference definitions in the words of the specification\<close>

text \<open>
  The 3-bit mask of the comparisons \<open>key > fence[i]\<close>, bit \<open>i\<close> for fence \<open>i\<close>, and the naive
  scalar selector: the branch id is the number of fences the key exceeds.
\<close>

definition comparison_mask :: "KeyT \<Rightarrow> KeyT \<Rightarrow> KeyT \<Rightarrow> KeyT \<Rightarrow> nat" where
  "comparison_mask key f0 f1 f2 =
     of_bool (f0 <s key) + 2 * of_bool (f1 <s key) + 4 * of_bool (f2 <s key)"

definition scalar_branch :: "KeyT \<Rightarrow> KeyT \<Rightarrow> KeyT \<Rightarrow> KeyT \<Rightarrow> nat" where
  "scalar_branch key f0 f1 f2 =
     of_bool (f0 <s key) + of_bool (f1 <s key) + of_bool (f2 <s key)"

text \<open>
  The same selector as a chain of three comparisons along the quarters: first the
  1st-quarter fence (slot 1), then the 2nd-quarter fence (slot 0), then the 3rd-quarter
  fence (slot 2).
\<close>

definition scalar_branch_chain :: "KeyT \<Rightarrow> KeyT \<Rightarrow> KeyT \<Rightarrow> KeyT \<Rightarrow> nat" where
  "scalar_branch_chain key f0 f1 f2 =
     (if \<not> f1 <s key then 0 else if \<not> f0 <s key then 1 else if \<not> f2 <s key then 2 else 3)"

definition legal_mask :: "nat \<Rightarrow> bool" where
  "legal_mask m = (m = 0 \<or> m = 2 \<or> m = 3 \<or> m = 7)"

text \<open>The brute-force linear scans the specification compares the lookups with.\<close>

definition brute_force_find :: "KeyValuePair list \<Rightarrow> KeyT \<Rightarrow> Uint64 list" where
  "brute_force_find table key = map kv_value (filter (\<lambda>r. kv_key r = key) table)"

definition brute_force_range :: "KeyValuePair list \<Rightarrow> KeyT \<Rightarrow> KeyT \<Rightarrow> Uint64 list" where
  "brute_force_range table lo hi =
     map kv_value (filter (\<lambda>r. lo \<le>s kv_key r \<and> kv_key r <s hi) table)"

text \<open>
  The result of a query started on the output vector \<open>values\<close>, expressed through the
  result of the same query started on the empty vector.
\<close>

definition appended_to :: "Uint64 list \<Rightarrow> error + Uint64 list \<Rightarrow> error + Uint64 list" where
  "appended_to values res = (case res of Inl e \<Rightarrow> Inl e | Inr out \<Rightarrow> Inr (values @ out))"

text \<open>Two index states that differ in the inner-node buffer at most.\<close>

definition only_inner_nodes :: "FastIndex \<Rightarrow> FastIndex \<Rightarrow> bool" where
  "only_inner_nodes idx idx' = (idx' = idx\<lparr>inner_nodes := inner_nodes idx'\<rparr>)"

subsection \<open>Concrete indexes\<close>

text \<open>
  \<open>geometry_index\<close> is an index object whose geometry members hold the values the
  constructor derives; \<open>build\<close> is construction followed by the first rebuild.
\<close>

definition mk_record :: "KeyT \<Rightarrow> Uint64 \<Rightarrow> KeyValuePair" where
  "mk_record k v = \<lparr>kv_key = k, kv_value = v\<rparr>"

definition geometry_index ::
  "KeyValuePair list \<Rightarrow> KeyValuePair list \<Rightarrow> nat \<Rightarrow> KeyT \<Rightarrow> KeyT \<Rightarrow> KeyT list \<Rightarrow> FastIndex" where
  "geometry_index t c n kmin kmax nodes =
     \<lparr> table_ptr = t, container = c, num_layers = n, key_min = kmin, key_max = kmax,
       inner_nodes = nodes, simd_key_capacity = 3, simd_depth = 2,
       cacheline_key_capacity = 15, cacheline_depth = 4, cacheline_capacity = 5,
       page_key_capacity = 255, page_depth = 8, page_capacity = 85 \<rparr>"

definition build :: "KeyValuePair list \<Rightarrow> nat \<Rightarrow> error + FastIndex" where
  "build t n = ebind (FastIndex_new t n) reorganize"

definition fence_index :: "KeyT list \<Rightarrow> FastIndex" where
  "fence_index nodes = geometry_index [] [] 4 0 0 nodes"

text \<open>
  The table of the concrete scenario of the specification: keys 1, 1, 3, 5, 5, 5, 9, 12
  with the references 0 to 7, and the index built over it with \<open>num_layers = 0\<close>.
\<close>

definition scenario_table :: "KeyValuePair list" where
  "scenario_table = [mk_record 1 0, mk_record 1 1, mk_record 3 2, mk_record 5 3,
                     mk_record 5 4, mk_record 5 5, mk_record 9 6, mk_record 12 7]"

definition scenario_index :: FastIndex where
  "scenario_index = geometry_index scenario_table scenario_table 0 1 12 []"

definition scenario_find :: "KeyT \<Rightarrow> error + Uint64 list" where
  "scenario_find key = ebind (build scenario_table 0) (\<lambda>idx. find_FastIndex idx key [])"

definition scenario_find_range :: "KeyT \<Rightarrow> KeyT \<Rightarrow> error + Uint64 list" where
  "scenario_find_range lo hi = ebind (build scenario_table 0) (\<lambda>idx. find_range idx lo hi [])"

text \<open>
  A table whose last key is duplicated; sixteen records with the even keys 0 to 30, the
  index built over them with \<open>num_layers = 4\<close>, and the state in which the rebuild enters
  the tree construction; a table whose records all share the key 4.
\<close>

definition last_duplicate_table :: "KeyValuePair list" where
  "last_duplicate_table = [mk_record 1 0, mk_record 2 1, mk_record 2 2, mk_record 2 3]"

definition even_keys_table :: "KeyValuePair list" where
  "even_keys_table =
     [mk_record 0 0, mk_record 2 1, mk_record 4 2, mk_record 6 3, mk_record 8 4,
      mk_record 10 5, mk_record 12 6, mk_record 14 7, mk_record 16 8, mk_record 18 9,
      mk_record 20 10, mk_record 22 11, mk_record 24 12, mk_record 26 13, mk_record 28 14,
      mk_record 30 15]"

definition even_keys_index :: FastIndex where
  "even_keys_index = geometry_index even_keys_table even_keys_table 4 0 30
     [14, 6, 22, 2, 0, 4, 10, 8, 12, 18, 16, 20, 26, 24, 28, 0]"

definition even_keys_unbuilt :: FastIndex where
  "even_keys_unbuilt =
     geometry_index even_keys_table even_keys_table 4 0 30 (replicate 16 0)"

definition degenerate_table :: "KeyValuePair list" where
  "degenerate_table = [mk_record 4 10, mk_record 4 11, mk_record 4 12]"

definition degenerate_index :: FastIndex where
  "degenerate_index = geometry_index degenerate_table degenerate_table 0 4 4 []"

definition last_duplicate_index :: FastIndex where
  "last_duplicate_index = geometry_index last_duplicate_table last_duplicate_table 0 1 2 []"

section \<open>Properties\<close>

text \<open>The recursive equations of the loops are unfolded by hand, one step at a time.\<close>

declare find_internal.simps [simp del] push_all.simps [simp del] move_left.simps [simp del]
  move_right.simps [simp del] find_inner_layers_loop.simps [simp del]
  construct_cacheline_block_loop.simps [simp del] construct_inner_layers_loop_j.simps [simp del]
  construct_inner_layers_loop_i.simps [simp del] log2_trunc.simps [simp del]


lemma bit31_cmpgt_lane: "bit (cmpgt_lane a b) 31 = (b <s a)"
  by (simp add: cmpgt_lane_def)

lemma movemask_and_7:
  "unat ((of_bool b0 + 2 * of_bool b1 + 4 * of_bool b2 + 8 * of_bool b3 :: 32 word) AND 7)
     = of_bool b0 + 2 * of_bool b1 + 4 * of_bool b2"
  by (cases b0; cases b1; cases b2; cases b3) simp_all

lemma lookup_simd_block_mask:
  assumes "current_pos + 4 \<le> length (inner_nodes idx)"
  shows "lookup_simd_block idx key current_pos =
           Inr (branch_table ! comparison_mask key (inner_nodes idx ! current_pos)
                  (inner_nodes idx ! (current_pos + 1)) (inner_nodes idx ! (current_pos + 2)))"
  using assms
  by (simp add: lookup_simd_block_def mm_loadu_si128_def ebind_def mm_set1_epi32_def
      mm_cmpgt_epi32_def mm_movemask_ps_def bit31_cmpgt_lane movemask_and_7
      comparison_mask_def)

subsection \<open>The branch selector\<close>

lemma branch_table_legal:
  "branch_table ! 0 = 0 \<and> branch_table ! 2 = 1 \<and> branch_table ! 3 = 2 \<and> branch_table ! 7 = 3"
  by (simp add: branch_table_def)

lemma legal_mask_scalar:
  "legal_mask (comparison_mask key f0 f1 f2) \<Longrightarrow>
     branch_table ! comparison_mask key f0 f1 f2 = scalar_branch key f0 f1 f2"
  by (cases "f0 <s key"; cases "f1 <s key"; cases "f2 <s key")
    (simp_all add: legal_mask_def comparison_mask_def scalar_branch_def branch_table_def)

lemma illegal_mask_sentinel:
  "\<not> legal_mask (comparison_mask key f0 f1 f2) \<Longrightarrow>
     branch_table ! comparison_mask key f0 f1 f2 = 9"
  by (cases "f0 <s key"; cases "f1 <s key"; cases "f2 <s key")
    (simp_all add: legal_mask_def comparison_mask_def branch_table_def)

lemma legal_mask_scalar_chain:
  "legal_mask (comparison_mask key f0 f1 f2) \<Longrightarrow>
     branch_table ! comparison_mask key f0 f1 f2 = scalar_branch_chain key f0 f1 f2"
  by (cases "f0 <s key"; cases "f1 <s key"; cases "f2 <s key")
    (simp_all add: legal_mask_def comparison_mask_def scalar_branch_chain_def
      branch_table_def)

text \<open>
  Fences taken from a table sorted by key satisfy \<open>f1 \<le> f0 \<le> f2\<close>, and then only the
  four legal masks arise.
\<close>

lemma monotone_fences_legal:
  "f1 \<le>s f0 \<Longrightarrow> f0 \<le>s f2 \<Longrightarrow> legal_mask (comparison_mask key f0 f1 f2)"
  by (cases "f0 <s key"; cases "f1 <s key"; cases "f2 <s key")
    (auto simp add: legal_mask_def comparison_mask_def word_sless_alt word_sle_eq)

text \<open>
  C4. For every key and every fence buffer that holds the four lanes the vector load
  reads, \<open>lookup_simd_block\<close> returns the entry of the fixed table at the 3-bit mask of the
  comparisons \<open>key > fence[i]\<close>; the table maps the masks 000, 010, 011, 111 to 0, 1, 2, 3;
  and for each of these four legal masks the result is the branch id of the naive scalar
  selector, read as the count of the fences the key exceeds and read as the chain of three
  comparisons.
\<close>

theorem lookup_simd_block_selector:
  "current_pos + 4 \<le> length (inner_nodes idx) \<Longrightarrow>
     (let f0 = inner_nodes idx ! current_pos;
          f1 = inner_nodes idx ! (current_pos + 1);
          f2 = inner_nodes idx ! (current_pos + 2);
          m = comparison_mask key f0 f1 f2
      in lookup_simd_block idx key current_pos = Inr (branch_table ! m)
         \<and> branch_table ! 0 = 0 \<and> branch_table ! 2 = 1
         \<and> branch_table ! 3 = 2 \<and> branch_table ! 7 = 3
         \<and> (legal_mask m \<longrightarrow>
              lookup_simd_block idx key current_pos = Inr (scalar_branch key f0 f1 f2)
              \<and> lookup_simd_block idx key current_pos
                  = Inr (scalar_branch_chain key f0 f1 f2)))"
proof -
  assume "current_pos + 4 \<le> length (inner_nodes idx)"
  note res = lookup_simd_block_mask [OF this, of key]
  show ?thesis
    unfolding Let_def res
    using branch_table_legal legal_mask_scalar legal_mask_scalar_chain by simp
qed

theorem lookup_simd_block_selector_witness:
  "0 + 4 \<le> length (inner_nodes even_keys_index)
   \<and> legal_mask (comparison_mask 7 14 6 22)
   \<and> lookup_simd_block even_keys_index 7 0 = Inr 1
   \<and> scalar_branch 7 14 6 22 = 1
   \<and> scalar_branch_chain 7 14 6 22 = 1"
  using lookup_simd_block_selector [of 0 even_keys_index 7]
  by (simp add: even_keys_index_def geometry_index_def Let_def legal_mask_def
      comparison_mask_def scalar_branch_def scalar_branch_chain_def branch_table_def
      word_sless_alt)

text \<open>
  C5, as the specification states it, fails: on a buffer with the fences 3, 7, 9, which no
  sorted table produces, and the key 5 the mask is 001, one of the impossible patterns, and
  \<open>lookup_simd_block\<close> returns normally with the table entry 9; \<open>lookup_cacheline_block\<close>
  goes on with it, reads the vector block at position \<open>3 * (9 + 1)\<close> and returns the
  combined branch id 39.
\<close>

theorem lookup_simd_block_impossible_counterexample:
  "\<not> legal_mask (comparison_mask 5 3 7 9)
   \<and> lookup_simd_block (fence_index (3 # 7 # 9 # replicate 31 0)) 5 0 = Inr 9
   \<and> lookup_cacheline_block (fence_index (3 # 7 # 9 # replicate 31 0)) 5 0 = Inr 39"
  by (simp add: fence_index_def geometry_index_def lookup_cacheline_block_def
      lookup_simd_block_mask ebind_def legal_mask_def comparison_mask_def branch_table_def
      word_sless_alt)

text \<open>
  C5, amended. On an impossible mask \<open>lookup_simd_block\<close> raises no failure: it returns
  the sentinel 9 of the table, a value outside the branch ids 0 to 3.
\<close>

theorem lookup_simd_block_impossible:
  "current_pos + 4 \<le> length (inner_nodes idx) \<Longrightarrow>
   \<not> legal_mask (comparison_mask key (inner_nodes idx ! current_pos)
         (inner_nodes idx ! (current_pos + 1)) (inner_nodes idx ! (current_pos + 2))) \<Longrightarrow>
   lookup_simd_block idx key current_pos = Inr 9"
  by (simp add: lookup_simd_block_mask illegal_mask_sentinel)

theorem lookup_simd_block_impossible_witness:
  "0 + 4 \<le> length (inner_nodes (fence_index [3, 7, 9, 0]))
   \<and> \<not> legal_mask (comparison_mask 5 3 7 9)
   \<and> lookup_simd_block (fence_index [3, 7, 9, 0]) 5 0 = Inr 9"
  using lookup_simd_block_impossible [of 0 "fence_index [3, 7, 9, 0]" 5]
  by (simp add: fence_index_def geometry_index_def legal_mask_def comparison_mask_def
      word_sless_alt)

subsection \<open>Evaluating the constructor and the concrete indexes\<close>

lemma wrap64_nat: "0 \<le> i \<Longrightarrow> i < 2 ^ 64 \<Longrightarrow> wrap64 i = nat i"
  by (simp add: wrap64_def)

lemma sless_total: "(a :: 32 word) \<noteq> b \<Longrightarrow> a <s b \<or> b <s a"
proof -
  assume "a \<noteq> b"
  then have "sint a \<noteq> sint b"
    using signed_word_eqI [of a b] by blast
  then show ?thesis
    by (auto simp add: word_sless_alt)
qed

lemma log2_trunc_5: "log2_trunc 5 = 2"
  by code_simp

lemma log2_trunc_17: "log2_trunc 17 = 4"
  by code_simp

lemma log2_trunc_1025: "log2_trunc 1025 = 10"
  by code_simp

text \<open>
  The geometry the constructor derives: vector depth 2 with 3 keys, cache-line depth 4 with
  15 keys in 5 vector blocks, page depth 8 with 255 keys in 85 vector blocks. The only
  assertion of the constructor that can fail is the one on \<open>num_layers\<close>.
\<close>

lemma FastIndex_new_eq:
  "FastIndex_new t n =
     (if n mod 4 \<noteq> 0 then Inl (AssertFailed ''do not support number of layers'')
      else Inr (geometry_index t [] n 0 0 []))"
  unfolding FastIndex_new_def sizeof_KeyT_def SIMD_SIZE_def CACHELINE_SIZE_def PAGE_SIZE_def
    Let_def geometry_index_def
  by (simp add: log2_trunc_5 log2_trunc_17 log2_trunc_1025)

lemma build_scenario: "build scenario_table 0 = Inr scenario_index"
  by code_simp

lemma build_last_duplicate: "build last_duplicate_table 0 = Inr last_duplicate_index"
  by code_simp

lemma build_even_keys: "build even_keys_table 4 = Inr even_keys_index"
  by code_simp

lemma build_degenerate: "build degenerate_table 0 = Inr degenerate_index"
  by code_simp

subsection \<open>What a rebuild leaves behind\<close>

text \<open>
  The tree construction writes to the inner-node buffer only. After a successful rebuild
  the container holds the records of the table sorted by key, it is not empty, and
  \<open>key_min\<close> and \<open>key_max\<close> are the keys of its first and last record.
\<close>

lemma only_inner_nodes_refl: "only_inner_nodes idx idx"
  by (simp add: only_inner_nodes_def)

lemma only_inner_nodes_trans:
  "only_inner_nodes a b \<Longrightarrow> only_inner_nodes b c \<Longrightarrow> only_inner_nodes a c"
  by (metis (no_types, lifting) only_inner_nodes_def FastIndex.surjective FastIndex.update_convs(6))

lemma inner_nodes_store_frame:
  "inner_nodes_store idx pos k = Inr idx' \<Longrightarrow> only_inner_nodes idx idx'"
  by (auto simp add: inner_nodes_store_def only_inner_nodes_def split: if_splits)

lemma ebind_Inr: "ebind m f = Inr y \<Longrightarrow> \<exists>x. m = Inr x \<and> f x = Inr y"
  by (cases m) (simp_all add: ebind_def)

lemma construct_simd_block_frame:
  assumes "construct_simd_block idx pos l r = Inr idx'"
  shows "only_inner_nodes idx idx'"
proof -
  from assms obtain idx0 idx1 k0 k1 k2 where
    "inner_nodes_store idx (pos + 0) k0 = Inr idx0"
    "inner_nodes_store idx0 (pos + 1) k1 = Inr idx1"
    "inner_nodes_store idx1 (pos + 2) k2 = Inr idx'"
    unfolding construct_simd_block_def Let_def
    by (auto split: if_splits dest!: ebind_Inr)
  then show ?thesis
    by (blast intro: only_inner_nodes_trans dest: inner_nodes_store_frame)
qed

lemma construct_cacheline_block_loop_frame:
  "construct_cacheline_block_loop idx pos l step i = Inr idx' \<Longrightarrow> only_inner_nodes idx idx'"
proof (induction idx pos l step i rule: construct_cacheline_block_loop.induct)
  case (1 idx pos l step i)
  show ?case
  proof (cases "i < 4")
    case True
    with "1.prems" obtain idx0 where
      a: "construct_simd_block idx (pos + 3 * (i + 1)) (l + step * i)
            (wrap64 (int l + int step * (int i + 1) - 1)) = Inr idx0"
      and b: "construct_cacheline_block_loop idx0 pos l step (i + 1) = Inr idx'"
      by (subst (asm) construct_cacheline_block_loop.simps) (auto split: sum.splits)
    from "1.IH" [OF True a b] construct_simd_block_frame [OF a] show ?thesis
      by (blast intro: only_inner_nodes_trans)
  next
    case False
    with "1.prems" show ?thesis
      by (subst (asm) construct_cacheline_block_loop.simps) (simp add: only_inner_nodes_refl)
  qed
qed

lemma construct_cacheline_block_frame:
  "construct_cacheline_block idx pos l r = Inr idx' \<Longrightarrow> only_inner_nodes idx idx'"
  unfolding construct_cacheline_block_def Let_def
  by (blast intro: only_inner_nodes_trans
      dest: ebind_Inr construct_simd_block_frame construct_cacheline_block_loop_frame)

lemma construct_inner_layers_loop_j_frame:
  "construct_inner_layers_loop_j idx pos step n j = Inr (idx', pos') \<Longrightarrow>
     only_inner_nodes idx idx'"
proof (induction idx pos step n j rule: construct_inner_layers_loop_j.induct)
  case (1 idx pos step n j)
  show ?case
  proof (cases "j < n")
    case True
    with "1.prems" obtain idx0 where
      a: "construct_cacheline_block idx pos (step * j) (wrap64 (int step * (int j + 1) - 1))
            = Inr idx0"
      and b: "construct_inner_layers_loop_j idx0 (pos + 16) step n (j + 1) = Inr (idx', pos')"
      by (subst (asm) construct_inner_layers_loop_j.simps) (auto split: sum.splits)
    from "1.IH" [OF True a b] construct_cacheline_block_frame [OF a] show ?thesis
      by (blast intro: only_inner_nodes_trans)
  next
    case False
    with "1.prems" show ?thesis
      by (subst (asm) construct_inner_layers_loop_j.simps) (simp add: only_inner_nodes_refl)
  qed
qed

lemma construct_inner_layers_loop_i_frame:
  "construct_inner_layers_loop_i idx levels l r i pos = Inr idx' \<Longrightarrow>
     only_inner_nodes idx idx'"
proof (induction idx levels l r i pos rule: construct_inner_layers_loop_i.induct)
  case (1 idx levels l r i pos)
  show ?case
  proof (cases "i < levels")
    case True
    with "1.prems" obtain n idx0 pos0 where
      p: "pow16 i = Inr n"
      and a: "construct_inner_layers_loop_j idx pos (wrap64 (int r - int l + 1) div n) n 0
            = Inr (idx0, pos0)"
      and b: "construct_inner_layers_loop_i idx0 levels l r (i + 1) pos0 = Inr idx'"
      by (subst (asm) construct_inner_layers_loop_i.simps) (auto split: sum.splits)
    from "1.IH" [OF True p a _ b] construct_inner_layers_loop_j_frame [OF a] show ?thesis
      by (auto intro: only_inner_nodes_trans)
  next
    case False
    with "1.prems" show ?thesis
      by (subst (asm) construct_inner_layers_loop_i.simps) (simp add: only_inner_nodes_refl)
  qed
qed

lemma construct_inner_layers_frame:
  "construct_inner_layers idx = Inr idx' \<Longrightarrow> only_inner_nodes idx idx'"
  unfolding construct_inner_layers_def Let_def
  by (auto split: if_splits dest!: ebind_Inr
      intro: only_inner_nodes_trans
      dest: construct_cacheline_block_frame construct_inner_layers_loop_i_frame)

lemma reorganize_result:
  assumes "reorganize idx = Inr idx'" and "length (table_ptr idx) < 2 ^ 64"
  shows "container idx' = sort_key (\<lambda>r. sint (kv_key r)) (table_ptr idx)
         \<and> container idx' \<noteq> []
         \<and> key_min idx' = kv_key (hd (container idx'))
         \<and> key_max idx' = kv_key (last (container idx'))
         \<and> num_layers idx' = num_layers idx"
proof -
  define c where "c = sort_key (\<lambda>r. sint (kv_key r)) (table_ptr idx)"
  have c: "container (base_reorganize idx) = c"
    by (simp add: base_reorganize_def c_def)
  from assms(1) have ne: "c \<noteq> []"
    unfolding reorganize_def Let_def
    by (auto simp add: container_size_def c pow2_minus_1_def ebind_def split: if_splits)
  have "length c < 2 ^ 64"
    using assms(2) by (simp add: c_def)
  with ne have last_index: "wrap64 (int (length c) - 1) = length c - 1"
    by (cases c) (simp_all add: wrap64_def)
  define idx1 where
    "idx1 = (base_reorganize idx)\<lparr>key_min := kv_key (hd c), key_max := kv_key (last c)\<rparr>"
  have reads: "container_at (base_reorganize idx) 0 = Inr (hd c)"
    "container_at (base_reorganize idx) (wrap64 (int (container_size (base_reorganize idx)) - 1))
       = Inr (last c)"
    using ne by (simp_all add: container_at_def container_size_def c last_index hd_conv_nth
        last_conv_nth)
  from assms(1) have "only_inner_nodes idx1 idx'"
    unfolding reorganize_def Let_def
    by (auto simp add: reads ebind_def idx1_def only_inner_nodes_def
        split: if_splits sum.splits dest!: construct_inner_layers_frame)
  then have "idx' = idx1\<lparr>inner_nodes := inner_nodes idx'\<rparr>"
    by (simp add: only_inner_nodes_def)
  then have "container idx' = container idx1" "key_min idx' = key_min idx1"
    "key_max idx' = key_max idx1" "num_layers idx' = num_layers idx1"
    by (metis FastIndex.select_convs FastIndex.surjective FastIndex.update_convs(6))+
  then show ?thesis
    using ne by (simp add: idx1_def c base_reorganize_def c_def [symmetric])
qed

lemma sorted_ends_equal:
  assumes "sorted (map f xs)" and "xs \<noteq> []" and "f (hd xs) = f (last xs)" and "x \<in> set xs"
  shows "(f x :: int) = f (hd xs)"
proof -
  from assms(2,4) obtain i where i: "i < length xs" "x = xs ! i"
    by (auto simp add: in_set_conv_nth)
  have "f (hd xs) \<le> f x"
    using assms(1,2) i sorted_nth_mono [of "map f xs" 0 i] by (simp add: hd_conv_nth)
  moreover have "f x \<le> f (last xs)"
    using assms(1,2) i sorted_nth_mono [of "map f xs" i "length xs - 1"]
    by (simp add: last_conv_nth)
  ultimately show ?thesis
    using assms(3) by simp
qed

lemma reorganize_degenerate:
  assumes "reorganize idx = Inr idx'" and "length (table_ptr idx) < 2 ^ 64"
    and "key_min idx' = key_max idx'"
  shows "(\<forall>r \<in> set (container idx'). kv_key r = key_min idx')
         \<and> mset (container idx') = mset (table_ptr idx)"
proof -
  from reorganize_result [OF assms(1,2)]
  have c: "container idx' = sort_key (\<lambda>r. sint (kv_key r)) (table_ptr idx)"
    and ne: "container idx' \<noteq> []"
    and kmin: "key_min idx' = kv_key (hd (container idx'))"
    and kmax: "key_max idx' = kv_key (last (container idx'))"
    by blast+
  have sorted: "sorted (map (\<lambda>r. sint (kv_key r)) (container idx'))"
    by (simp add: c)
  have ends: "sint (kv_key (hd (container idx'))) = sint (kv_key (last (container idx')))"
    using kmin kmax assms(3) by simp
  have "kv_key r = key_min idx'" if "r \<in> set (container idx')" for r
  proof -
    have "sint (kv_key r) = sint (kv_key (hd (container idx')))"
      using sorted ne ends that by (rule sorted_ends_equal)
    then show ?thesis
      unfolding kmin by (rule signed_word_eqI)
  qed
  moreover have "mset (container idx') = mset (table_ptr idx)"
    by (simp add: c)
  ultimately show ?thesis
    by blast
qed

subsection \<open>Point lookup\<close>

lemma push_all_eq: "push_all idx i values = values @ map kv_value (drop i (container idx))"
proof (induction idx i "values" rule: push_all.induct)
  case (1 idx i "values")
  show ?case
  proof (cases "i < container_size idx")
    case True
    then have "drop i (container idx) = container idx ! i # drop (i + 1) (container idx)"
      by (simp add: container_size_def Cons_nth_drop_Suc)
    with True 1 show ?thesis
      by (subst push_all.simps) simp
  next
    case False
    then show ?thesis
      by (subst push_all.simps) (simp add: container_size_def)
  qed
qed

text \<open>
  C6. Whenever the index is empty, or the key is below \<open>key_min\<close> or above \<open>key_max\<close>,
  \<open>find\<close> returns normally with the output vector unchanged.
\<close>

theorem find_out_of_range:
  "container_size idx = 0 \<or> key <s key_min idx \<or> key_max idx <s key \<Longrightarrow>
     find_FastIndex idx key values = Inr values"
  by (auto simp add: find_FastIndex_def)

theorem find_out_of_range_witness:
  "container_size (geometry_index [] [] 0 0 0 []) = 0
   \<and> find_FastIndex (geometry_index [] [] 0 0 0 []) 5 [] = Inr []
   \<and> 0 <s key_min scenario_index \<and> find_FastIndex scenario_index 0 [] = Inr []
   \<and> key_max scenario_index <s 13 \<and> find_FastIndex scenario_index 13 [] = Inr []"
  using find_out_of_range [of "geometry_index [] [] 0 0 0 []" 5 "[]"]
    find_out_of_range [of scenario_index 0 "[]"]
    find_out_of_range [of scenario_index 13 "[]"]
  by (simp add: scenario_index_def geometry_index_def container_size_def word_sless_alt)

text \<open>
  C7. When \<open>key_min = key_max = K\<close>, \<open>find K\<close> appends the references of all records of
  the table, in table order, \<open>find\<close> of any other key appends nothing, and the result of
  \<open>find\<close> does not depend on the inner-node buffer or on \<open>num_layers\<close>: neither the tree
  nor the binary search is consulted. In a state a rebuild has produced, \<open>key_min = key_max\<close>
  means that every record has the key \<open>K\<close>, and the container holds exactly the records of
  the table.
\<close>

theorem find_degenerate:
  "key_min idx = key_max idx \<Longrightarrow>
     find_FastIndex idx (key_min idx) values = Inr (values @ map kv_value (container idx))
     \<and> (\<forall>key. key \<noteq> key_min idx \<longrightarrow> find_FastIndex idx key values = Inr values)
     \<and> (\<forall>key nodes layers.
           find_FastIndex (idx\<lparr>inner_nodes := nodes, num_layers := layers\<rparr>) key values
             = find_FastIndex idx key values)
     \<and> (\<forall>idx0. reorganize idx0 = Inr idx \<and> length (table_ptr idx0) < 2 ^ 64 \<longrightarrow>
           (\<forall>r \<in> set (container idx). kv_key r = key_min idx)
           \<and> mset (container idx) = mset (table_ptr idx0))"
proof -
  assume deg: "key_min idx = key_max idx"
  have "find_FastIndex idx (key_min idx) values = Inr (values @ map kv_value (container idx))"
    using deg by (simp add: find_FastIndex_def push_all_eq container_size_def)
  moreover have "find_FastIndex idx key values = Inr values" if "key \<noteq> key_min idx" for key
    using deg that sless_total [of key "key_min idx"] by (auto simp add: find_FastIndex_def)
  moreover have "find_FastIndex (idx\<lparr>inner_nodes := nodes, num_layers := layers\<rparr>) key values
      = find_FastIndex idx key values" for key nodes layers
    using deg by (simp add: find_FastIndex_def push_all_eq container_size_def)
  moreover have "(\<forall>r \<in> set (container idx). kv_key r = key_min idx)
      \<and> mset (container idx) = mset (table_ptr idx0)"
    if "reorganize idx0 = Inr idx" "length (table_ptr idx0) < 2 ^ 64" for idx0
    using that deg by (rule reorganize_degenerate)
  ultimately show ?thesis
    by blast
qed

theorem find_degenerate_witness:
  "key_min degenerate_index = key_max degenerate_index
   \<and> reorganize (geometry_index degenerate_table [] 0 0 0 []) = Inr degenerate_index
   \<and> length (table_ptr (geometry_index degenerate_table [] 0 0 0 [])) < 2 ^ 64
   \<and> find_FastIndex degenerate_index 4 [] = Inr [10, 11, 12]
   \<and> find_FastIndex degenerate_index 5 [] = Inr []"
proof -
  have "reorganize (geometry_index degenerate_table [] 0 0 0 []) = Inr degenerate_index"
    by code_simp
  then show ?thesis
    using find_degenerate [of degenerate_index "[]"]
    by (simp add: degenerate_index_def degenerate_table_def geometry_index_def mk_record_def)
qed

lemma move_left_append:
  "move_left idx key l (vs @ ws) = appended_to vs (move_left idx key l ws)"
proof (induction idx key l ws rule: move_left.induct)
  case (1 idx key l ws)
  then show ?case
    by (simp add: move_left.simps [of idx key l "vs @ ws"] move_left.simps [of idx key l ws]
        appended_to_def)
qed

lemma move_right_append:
  "move_right idx key r (vs @ ws) = appended_to vs (move_right idx key r ws)"
proof (induction idx key r ws rule: move_right.induct)
  case (1 idx key r ws)
  then show ?case
    by (simp add: move_right.simps [of idx key r "vs @ ws"] move_right.simps [of idx key r ws]
        appended_to_def)
qed

lemma appended_to_Inr: "appended_to vs (Inr out) = Inr (vs @ out)"
  by (simp add: appended_to_def)

lemma appended_to_ebind:
  "appended_to vs (ebind m f) = ebind m (\<lambda>x. appended_to vs (f x))"
  by (cases m) (simp_all add: ebind_def appended_to_def)

lemma appended_to_if:
  "appended_to vs (if c then a else b) = (if c then appended_to vs a else appended_to vs b)"
  by simp

lemma move_right_values:
  "move_right idx key r vs = appended_to vs (move_right idx key r [])"
  using move_right_append [of idx key r vs "[]"] by simp

lemma appended_to_appended_to:
  "appended_to vs (appended_to ws res) = appended_to (vs @ ws) res"
  by (cases res) (simp_all add: appended_to_def)

lemma find_FastIndex_append:
  "find_FastIndex idx key values = appended_to values (find_FastIndex idx key [])"
proof -
  have scans:
    "ebind (move_left idx key l (values @ [v])) (\<lambda>values_lhs. move_right idx key r values_lhs)
      = appended_to values
          (ebind (move_left idx key l ([] @ [v])) (\<lambda>values_lhs. move_right idx key r values_lhs))"
    for l v r
  proof (cases "move_left idx key l [v]")
    case (Inl e)
    then show ?thesis
      using move_left_append [of idx key l "values" "[v]"]
      by (simp add: ebind_def appended_to_def)
  next
    case (Inr out)
    then show ?thesis
      using move_left_append [of idx key l "values" "[v]"]
        move_right_values [of idx key r "values @ out"] move_right_values [of idx key r out]
      by (simp add: ebind_def appended_to_Inr appended_to_appended_to)
  qed
  show ?thesis
    unfolding find_FastIndex_def
    by (simp add: appended_to_if appended_to_ebind appended_to_Inr push_all_eq scans
        del: append_Nil cong: if_cong)
qed

lemma find_range_append:
  "find_range idx lhs_key rhs_key values = appended_to values (find_range idx lhs_key rhs_key [])"
  by (simp add: find_range_def appended_to_def)

text \<open>
  C10. \<open>find\<close> and \<open>find_range\<close> only append: a call on the output vector \<open>values\<close> fails
  exactly when the call on the empty vector fails, and otherwise returns \<open>values\<close>, every
  element in its position, followed by what the call on the empty vector returns.
\<close>

theorem find_only_appends:
  "find_FastIndex idx key values = appended_to values (find_FastIndex idx key [])
   \<and> find_range idx lhs_key rhs_key values
       = appended_to values (find_range idx lhs_key rhs_key [])"
  using find_FastIndex_append find_range_append by blast

theorem find_only_appends_witness:
  "find_FastIndex scenario_index 5 [100, 200] = Inr [100, 200, 3, 4, 5]
   \<and> find_range scenario_index 3 9 [100, 200] = Inr [100, 200]"
proof -
  have "find_FastIndex scenario_index 5 [] = Inr [3, 4, 5]"
    by code_simp
  moreover have "find_range scenario_index 3 9 [] = Inr []"
    by code_simp
  ultimately show ?thesis
    using find_only_appends [of scenario_index 5 "[100, 200]" 3 9]
    by (simp add: appended_to_def)
qed

text \<open>
  C9, as the specification states it, fails: on the scenario table \<open>find 5\<close> returns the
  references 3, 4, 5, not 2, 3, 4. The record with reference 2 has the key 3; the records
  with the key 5 are at the offsets 3, 4 and 5.
\<close>

theorem scenario_find_counterexample:
  "scenario_find 5 = Inr [3, 4, 5]
   \<and> mset [3, 4, 5 :: Uint64] \<noteq> mset [2, 3, 4]
   \<and> kv_key (scenario_table ! 2) = 3 \<and> kv_value (scenario_table ! 2) = 2"
proof -
  have "scenario_find 5 = Inr [3, 4, 5]"
    by code_simp
  then show ?thesis
    by (simp add: scenario_table_def mk_record_def)
qed

text \<open>
  C9, amended. On the scenario table, built with \<open>num_layers = 0\<close>, the tree lookup returns
  the full table range, \<open>find 5\<close> returns exactly the references 3, 4, 5, which are the
  references of the three records with key 5, and \<open>find 7\<close> returns nothing.
\<close>

theorem scenario_find:
  "build scenario_table 0 = Inr scenario_index
   \<and> find_inner_layers scenario_index 5 = Inr (0, 7)
   \<and> scenario_find 5 = Inr [3, 4, 5]
   \<and> brute_force_find scenario_table 5 = [3, 4, 5]
   \<and> scenario_find 7 = Inr []
   \<and> brute_force_find scenario_table 7 = []"
proof -
  have "find_inner_layers scenario_index 5 = Inr (0, 7)"
    by code_simp
  moreover have "scenario_find 5 = Inr [3, 4, 5]"
    by code_simp
  moreover have "brute_force_find scenario_table 5 = [3, 4, 5]"
    by code_simp
  moreover have "scenario_find 7 = Inr []"
    by code_simp
  moreover have "brute_force_find scenario_table 7 = []"
    by code_simp
  ultimately show ?thesis
    using build_scenario by simp
qed

text \<open>
  C1 at its failing inputs. On the table with keys 1, 2, 2, 2, built with
  \<open>num_layers = 0\<close>, \<open>find 2\<close> returns the references 1 and 2 and misses the reference 3 of
  the last record: the scan to the right stops before the offset \<open>size_ - 1\<close>. On sixteen
  records with the even keys 0 to 30, built with \<open>num_layers = 4\<close>, the tree narrows the
  key 3 to the single offset 2, and \<open>find 3\<close> returns the reference of the record with key
  4 without comparing keys, although no record has the key 3.
\<close>

theorem find_fails_brute_force:
  "build last_duplicate_table 0 = Inr last_duplicate_index
   \<and> find_FastIndex last_duplicate_index 2 [] = Inr [1, 2]
   \<and> brute_force_find last_duplicate_table 2 = [1, 2, 3]
   \<and> build even_keys_table 4 = Inr even_keys_index
   \<and> find_inner_layers even_keys_index 3 = Inr (2, 2)
   \<and> find_FastIndex even_keys_index 3 [] = Inr [2]
   \<and> brute_force_find even_keys_table 3 = []"
proof -
  have "find_FastIndex last_duplicate_index 2 [] = Inr [1, 2]"
    by code_simp
  moreover have "brute_force_find last_duplicate_table 2 = [1, 2, 3]"
    by code_simp
  moreover have "find_inner_layers even_keys_index 3 = Inr (2, 2)"
    by code_simp
  moreover have "find_FastIndex even_keys_index 3 [] = Inr [2]"
    by code_simp
  moreover have "brute_force_find even_keys_table 3 = []"
    by code_simp
  ultimately show ?thesis
    using build_last_duplicate build_even_keys by simp
qed

subsection \<open>Range lookup\<close>

lemma find_range_returns_nothing:
  "lhs_key <s rhs_key \<Longrightarrow> find_range idx lhs_key rhs_key values = Inr values"
  by (simp add: find_range_def)

text \<open>
  C2 at its failing input. On the scenario table \<open>find_range 3 9\<close> returns nothing, where
  the brute-force scan of the half-open interval finds the references 2, 3, 4, 5: the body
  of \<open>find_range\<close> ends after its bounds checks.
\<close>

theorem find_range_fails_brute_force:
  "scenario_find_range 3 9 = Inr []
   \<and> brute_force_range scenario_table 3 9 = [2, 3, 4, 5]"
proof -
  have "scenario_find_range 3 9 = Inr []"
    by code_simp
  moreover have "brute_force_range scenario_table 3 9 = [2, 3, 4, 5]"
    by code_simp
  ultimately show ?thesis
    by simp
qed

subsection \<open>Tree construction\<close>

text \<open>
  C3, as the specification states it, fails: the rebuild over the sixteen even keys builds
  its root vector block over the offsets 0 to 15, the step is 4, and the block holds 14, 6,
  22, the keys at the offsets 7, 3 and 11; the keys at \<open>lhs + 2 * step\<close> and \<open>lhs + step\<close>
  are 16 and 8.
\<close>

theorem construct_simd_block_counterexample:
  "construct_simd_block even_keys_unbuilt 0 0 15
     = Inr (even_keys_unbuilt\<lparr>inner_nodes := [14, 6, 22] @ replicate 13 0\<rparr>)
   \<and> kv_key (container even_keys_unbuilt ! (0 + 2 * ((15 - 0 + 1) div 4))) = 16
   \<and> ([14, 6, 22] @ replicate 13 0) ! 0 \<noteq> (16 :: KeyT)
   \<and> kv_key (container even_keys_unbuilt ! (0 + (15 - 0 + 1) div 4)) = 8
   \<and> ([14, 6, 22] @ replicate 13 0) ! 1 \<noteq> (8 :: KeyT)"
proof -
  have "construct_simd_block even_keys_unbuilt 0 0 15
          = Inr (even_keys_unbuilt\<lparr>inner_nodes := [14, 6, 22] @ replicate 13 0\<rparr>)"
    by code_simp
  moreover have "kv_key (container even_keys_unbuilt ! (0 + 2 * ((15 - 0 + 1) div 4))) = 16"
    by code_simp
  moreover have "kv_key (container even_keys_unbuilt ! (0 + (15 - 0 + 1) div 4)) = 8"
    by code_simp
  ultimately show ?thesis
    by simp
qed

text \<open>
  C3, amended. For a vector block built over the offsets \<open>lhs\<close> to \<open>rhs\<close> of the table,
  at least four wide, with \<open>step = (rhs - lhs + 1) / 4\<close>, the three fence keys are the
  table's keys at \<open>lhs + step - 1\<close>, \<open>lhs + 2 * step - 1\<close> and \<open>lhs + 3 * step - 1\<close>, the
  last offset of the first, second and third quarter; slot 0 of the block holds the second
  of them, slot 1 the first, slot 2 the third, and nothing else changes.
\<close>

theorem construct_simd_block_fences:
  assumes cap: "simd_key_capacity idx = 3"
    and range: "lhs_offset \<le> rhs_offset" "rhs_offset < container_size idx"
    and size: "container_size idx < 2 ^ 64"
    and wide: "4 \<le> rhs_offset - lhs_offset + 1"
    and room: "current_pos + 2 < length (inner_nodes idx)"
  shows "let step = (rhs_offset - lhs_offset + 1) div 4;
             k2 = kv_key (container idx ! (lhs_offset + 2 * step - 1));
             k1 = kv_key (container idx ! (lhs_offset + 1 * step - 1));
             k3 = kv_key (container idx ! (lhs_offset + 3 * step - 1))
         in construct_simd_block idx current_pos lhs_offset rhs_offset =
              Inr (idx\<lparr>inner_nodes :=
                     (inner_nodes idx)[current_pos := k2, current_pos + 1 := k1,
                                       current_pos + 2 := k3]\<rparr>)
            \<and> (inner_nodes idx)[current_pos := k2, current_pos + 1 := k1,
                                  current_pos + 2 := k3] ! current_pos = k2
            \<and> (inner_nodes idx)[current_pos := k2, current_pos + 1 := k1,
                                  current_pos + 2 := k3] ! (current_pos + 1) = k1
            \<and> (inner_nodes idx)[current_pos := k2, current_pos + 1 := k1,
                                  current_pos + 2 := k3] ! (current_pos + 2) = k3"
proof -
  define step where "step = (rhs_offset - lhs_offset + 1) div 4"
  have step_pos: "1 \<le> step" and step_le: "4 * step \<le> rhs_offset - lhs_offset + 1"
    using wide by (simp_all add: step_def)
  have w: "wrap64 (int rhs_offset - int lhs_offset + 1) = rhs_offset - lhs_offset + 1"
    using range size by (subst wrap64_nat) auto
  have i2: "wrap64 (int lhs_offset + 2 * int step - 1) = lhs_offset + 2 * step - 1"
    using range size step_pos step_le by (subst wrap64_nat) auto
  have i1: "wrap64 (int lhs_offset + 1 * int step - 1) = lhs_offset + 1 * step - 1"
    using range size step_pos step_le by (subst wrap64_nat) auto
  have i3: "wrap64 (int lhs_offset + 3 * int step - 1) = lhs_offset + 3 * step - 1"
    using range size step_pos step_le by (subst wrap64_nat) auto
  have b: "lhs_offset + 2 * step - 1 < container_size idx"
    "lhs_offset + 1 * step - 1 < container_size idx"
    "lhs_offset + 3 * step - 1 < container_size idx"
    using range step_pos step_le by auto
  show ?thesis
    unfolding Let_def step_def [symmetric] construct_simd_block_def w i1 i2 i3
    using cap b room
    by (simp add: container_at_def inner_nodes_store_def ebind_def container_size_def)
qed

theorem construct_simd_block_fences_witness:
  "simd_key_capacity even_keys_unbuilt = 3 \<and> (0 :: nat) \<le> 15
   \<and> 15 < container_size even_keys_unbuilt
   \<and> container_size even_keys_unbuilt < 2 ^ 64 \<and> (4 :: nat) \<le> 15 - 0 + 1
   \<and> 0 + 2 < length (inner_nodes even_keys_unbuilt)
   \<and> construct_simd_block even_keys_unbuilt 0 0 15
       = Inr (even_keys_unbuilt\<lparr>inner_nodes := [14, 6, 22] @ replicate 13 0\<rparr>)
   \<and> kv_key (container even_keys_unbuilt ! 7) = 14
   \<and> kv_key (container even_keys_unbuilt ! 3) = 6
   \<and> kv_key (container even_keys_unbuilt ! 11) = 22"
proof -
  have h: "simd_key_capacity even_keys_unbuilt = 3" "(0 :: nat) \<le> 15"
    "15 < container_size even_keys_unbuilt" "container_size even_keys_unbuilt < 2 ^ 64"
    "(4 :: nat) \<le> 15 - 0 + 1" "0 + 2 < length (inner_nodes even_keys_unbuilt)"
    by (simp_all add: even_keys_unbuilt_def even_keys_table_def geometry_index_def
        container_size_def)
  have r: "replicate 16 (0 :: KeyT) = [0, 0, 0] @ replicate 13 0"
    by code_simp
  show ?thesis
    using h construct_simd_block_fences [OF h]
    by (simp add: Let_def even_keys_unbuilt_def even_keys_table_def geometry_index_def
        mk_record_def r)
qed

subsection \<open>Construction and rebuild\<close>

lemma reorganize_too_deep:
  assumes "length (table_ptr idx) \<le> 2 ^ num_layers idx - 1"
  shows "reorganize idx =
           Inl (if num_layers idx \<le> 63 then AssertFailed ''exceed maximum layers''
                else Undefined)"
proof -
  have len: "container_size (base_reorganize idx) = length (table_ptr idx)"
    by (simp add: container_size_def base_reorganize_def)
  have nl: "num_layers (base_reorganize idx) = num_layers idx"
    by (simp add: base_reorganize_def)
  have "length (table_ptr idx) < 2 ^ num_layers idx"
    using assms by (metis One_nat_def Suc_pred' less_Suc_eq_le zero_less_numeral zero_less_power)
  then show ?thesis
    using assms
    by (simp add: reorganize_def Let_def ebind_def pow2_minus_1_def len nl)
qed

text \<open>
  C8. The cache-line depth the constructor derives is 4, and construction with a
  \<open>num_layers\<close> that is not a multiple of it fails its assertion: no index object results.
  A rebuild over a table of at most \<open>2 ^ num_layers - 1\<close> records fails the assertion
  "exceed maximum layers" and returns no queryable index; from \<open>num_layers = 64\<close> on,
  where the table size can never exceed \<open>2 ^ num_layers - 1\<close>, the conversion of
  \<open>2 ^ num_layers\<close> to \<open>size_t\<close> is already undefined and the rebuild fails there.
\<close>

theorem construction_failures:
  "(FastIndex_new table n = Inr idx \<longrightarrow>
      cacheline_depth idx = 4 \<and> n mod cacheline_depth idx = 0)
   \<and> (n mod 4 \<noteq> 0 \<longrightarrow>
        FastIndex_new table n = Inl (AssertFailed ''do not support number of layers''))
   \<and> (length (table_ptr idx0) \<le> 2 ^ num_layers idx0 - 1 \<longrightarrow>
        reorganize idx0 =
          Inl (if num_layers idx0 \<le> 63 then AssertFailed ''exceed maximum layers''
               else Undefined))"
  using reorganize_too_deep [of idx0]
  by (auto simp add: FastIndex_new_eq geometry_index_def split: if_splits)

theorem construction_failures_witness:
  "FastIndex_new scenario_table 4 = Inr (geometry_index scenario_table [] 4 0 0 [])
   \<and> cacheline_depth (geometry_index scenario_table [] 4 0 0 []) = 4
   \<and> (6 :: nat) mod 4 \<noteq> 0
   \<and> FastIndex_new scenario_table 6 = Inl (AssertFailed ''do not support number of layers'')
   \<and> length (table_ptr (geometry_index scenario_table [] 4 0 0 [])) \<le> 2 ^ 4 - 1
   \<and> reorganize (geometry_index scenario_table [] 4 0 0 [])
       = Inl (AssertFailed ''exceed maximum layers'')"
  using construction_failures
    [of scenario_table 4 "geometry_index scenario_table [] 4 0 0 []"
      "geometry_index scenario_table [] 4 0 0 []"]
    construction_failures
    [of scenario_table 6 "geometry_index scenario_table [] 4 0 0 []"
      "geometry_index scenario_table [] 4 0 0 []"]
  by (simp add: FastIndex_new_eq geometry_index_def scenario_table_def)

end
